theory Spec2Isabelle
  imports Main
begin

section \<open>The chat relay of backend/backend.py\<close>

text \<open>
  The repository is one Flask handler, \<^verbatim>\<open>chat_completion\<close>, behind
  \<^verbatim>\<open>POST /api/chat\<close>. It reads the JSON body of the request, looks the key
  \<^verbatim>\<open>messages\<close> up, rejects a falsy value with status 400, and otherwise calls the
  chat-completion client with the model \<^verbatim>\<open>"tentris"\<close>, prints the content of the first
  choice and answers with a fixed envelope; an \<^verbatim>\<open>Exception\<close> raised inside the
  \<^verbatim>\<open>try\<close> block becomes a status 500 answer.

  The handler's collaborators are explicit here: the outcome of Flask's
  \<^verbatim>\<open>request.json\<close> is the handler's input, the chat-completion client is a function
  handed to the handler, and standard output and the calls made to the client are fields
  of a state that the handler takes and returns.
\<close>

subsection \<open>JSON values, as Python holds them\<close>

text \<open>
  What \<^verbatim>\<open>json.loads\<close> builds: \<^verbatim>\<open>None\<close>, a bool, an int, a float, a str, a list
  or a dict. A float is kept as mantissa and exponent (the value \<open>m * 2 ^ e\<close>); only
  whether it is zero matters to the handler. A dict is kept as the members of the JSON
  object in the order of the text; a key that occurs twice keeps its last value, as in
  Python.
\<close>

datatype json =
    JNull
  | JBool bool
  | JInt int
  | JFloat int int
  | JStr string
  | JArr "json list"
  | JObj "(string \<times> json) list"

text \<open>Python's truth value of an object, which \<^verbatim>\<open>not messages\<close> tests.\<close>

fun truthy :: "json \<Rightarrow> bool" where
  "truthy JNull = False"
| "truthy (JBool b) = b"
| "truthy (JInt i) = (i \<noteq> 0)"
| "truthy (JFloat m e) = (m \<noteq> 0)"
| "truthy (JStr s) = (s \<noteq> [])"
| "truthy (JArr xs) = (xs \<noteq> [])"
| "truthy (JObj kvs) = (kvs \<noteq> [])"

text \<open>\<^verbatim>\<open>d.get(k, dflt)\<close> on a dict.\<close>

definition dict_get :: "(string \<times> json) list \<Rightarrow> string \<Rightarrow> json \<Rightarrow> json" where
  "dict_get d k dflt = (case map_of (rev d) k of None \<Rightarrow> dflt | Some v \<Rightarrow> v)"


text \<open>\<^verbatim>\<open>type(x).__name__\<close>, which the text of an AttributeError quotes.\<close>

fun type_name :: "json \<Rightarrow> string" where
  "type_name JNull = ''NoneType''"
| "type_name (JBool b) = ''bool''"
| "type_name (JInt i) = ''int''"
| "type_name (JFloat m e) = ''float''"
| "type_name (JStr s) = ''str''"
| "type_name (JArr xs) = ''list''"
| "type_name (JObj kvs) = ''dict''"

subsection \<open>Raised objects\<close>

text \<open>
  A raised object has a class and a text, the value of \<^verbatim>\<open>str(e)\<close>. The classes the
  handler meets by name are werkzeug's \<^verbatim>\<open>BadRequest\<close> (raised by
  \<^verbatim>\<open>request.json\<close>), \<^verbatim>\<open>AttributeError\<close> and \<^verbatim>\<open>IndexError\<close>; every other
  class that derives from \<^verbatim>\<open>Exception\<close> (the client's connection, timeout, status and
  parsing errors among them) is \<open>OtherException\<close> with its name, and a class that derives
  from \<^verbatim>\<open>BaseException\<close> only (\<^verbatim>\<open>KeyboardInterrupt\<close>, \<^verbatim>\<open>SystemExit\<close>) is
  \<open>NonException\<close>.
\<close>

datatype exc_class =
    BadRequest
  | AttributeError
  | IndexError
  | OtherException string
  | NonException string

datatype py_exc = Exc exc_class string

fun is_Exception :: "py_exc \<Rightarrow> bool" where
  "is_Exception (Exc (NonException n) s) = False"
| "is_Exception (Exc c s) = True"

fun str_exc :: "py_exc \<Rightarrow> string" where
  "str_exc (Exc c s) = s"

subsection \<open>The request, the upstream client, the response and the state\<close>

text \<open>
  \<^verbatim>\<open>request.json\<close> either raises \<^verbatim>\<open>BadRequest\<close> (the body is not valid JSON; the
  string is the description Flask gives the error) or yields the parsed value.
\<close>

datatype request_json =
    JsonLoadingFailed string
  | Json json

text \<open>
  The client's answer: \<^verbatim>\<open>response.choices[i].message.content\<close>, where the content is
  an optional string in the client library.
\<close>

record chat_message =
  content :: "string option"

record choice =
  message :: chat_message

record completion =
  choices :: "choice list"

text \<open>
  \<^verbatim>\<open>chat_client.chat.completions.create(model=..., messages=...)\<close>: it returns a
  completion or raises.
\<close>

type_synonym upstream = "string \<Rightarrow> json \<Rightarrow> py_exc + completion"

record response =
  status :: nat
  body :: json

text \<open>
  What the handler can change: the text written to standard output, and the calls made
  to the client, each with its model and its messages.
\<close>

record world =
  stdout :: string
  upstream_calls :: "(string \<times> json) list"

subsection \<open>The pieces of the handler\<close>

text \<open>\<^verbatim>\<open>data.get\<close>: only a dict has the attribute.\<close>

definition attribute_error :: "json \<Rightarrow> string \<Rightarrow> py_exc" where
  "attribute_error x attr =
     Exc AttributeError
       ([CHR 0x27] @ type_name x @ [CHR 0x27] @ '' object has no attribute '' @
        [CHR 0x27] @ attr @ [CHR 0x27])"

definition data_get :: "json \<Rightarrow> string \<Rightarrow> json \<Rightarrow> py_exc + json" where
  "data_get data k dflt =
     (case data of
        JObj d \<Rightarrow> Inr (dict_get d k dflt)
      | _ \<Rightarrow> Inl (attribute_error data ''get''))"

text \<open>\<^verbatim>\<open>xs[0]\<close> on a list.\<close>

definition subscript0 :: "'a list \<Rightarrow> py_exc + 'a" where
  "subscript0 xs =
     (case xs of
        [] \<Rightarrow> Inl (Exc IndexError ''list index out of range'')
      | x # _ \<Rightarrow> Inr x)"

text \<open>\<^verbatim>\<open>str(x)\<close> of an optional string, and the value \<^verbatim>\<open>jsonify\<close> writes for it.\<close>

definition str_opt :: "string option \<Rightarrow> string" where
  "str_opt x = (case x of None \<Rightarrow> ''None'' | Some s \<Rightarrow> s)"

definition json_of_opt :: "string option \<Rightarrow> json" where
  "json_of_opt x = (case x of None \<Rightarrow> JNull | Some s \<Rightarrow> JStr s)"

text \<open>
  \<^verbatim>\<open>print(a, b, ...)\<close>: the arguments' texts, a space between two of them, and a
  newline, appended to standard output (taken to accept every string).
\<close>

fun sep_join :: "string list \<Rightarrow> string" where
  "sep_join [] = []"
| "sep_join [x] = x"
| "sep_join (x # y # ys) = x @ '' '' @ sep_join (y # ys)"

definition print_line :: "string list \<Rightarrow> world \<Rightarrow> world" where
  "print_line args w = w\<lparr>stdout := stdout w @ sep_join args @ [CHR 0x0A]\<rparr>"

text \<open>\<^verbatim>\<open>jsonify(x)\<close> is a response with status 200; \<^verbatim>\<open>return r, n\<close> sets the status.\<close>

definition jsonify :: "json \<Rightarrow> response" where
  "jsonify j = \<lparr>status = 200, body = j\<rparr>"

definition with_status :: "response \<Rightarrow> nat \<Rightarrow> response" where
  "with_status r n = r\<lparr>status := n\<rparr>"

definition error_body :: "string \<Rightarrow> json" where
  "error_body s = JObj [(''error'', JStr s)]"

definition envelope :: "json \<Rightarrow> json" where
  "envelope c = JObj [(''choices'', JArr [JObj [(''message'', JObj [(''content'', c)])]])]"

text \<open>The call of the client, recorded in the state.\<close>

definition call_upstream ::
  "upstream \<Rightarrow> string \<Rightarrow> json \<Rightarrow> world \<Rightarrow> (py_exc + completion) \<times> world" where
  "call_upstream create model messages w =
     (create model messages, w\<lparr>upstream_calls := upstream_calls w @ [(model, messages)]\<rparr>)"

text \<open>
  The body of the \<^verbatim>\<open>try\<close> block: the call, the first choice's content, the print
  and the envelope. The first failure ends it.
\<close>

definition try_block :: "upstream \<Rightarrow> json \<Rightarrow> world \<Rightarrow> (py_exc + response) \<times> world" where
  "try_block create messages w =
     (case call_upstream create ''tentris'' messages w of
        (Inl e, w1) \<Rightarrow> (Inl e, w1)
      | (Inr resp, w1) \<Rightarrow>
          (case subscript0 (choices resp) of
             Inl e \<Rightarrow> (Inl e, w1)
           | Inr c \<Rightarrow>
               (let ai_message = content (message c);
                    w2 = print_line [''AI Response:'', str_opt ai_message] w1
                in (Inr (jsonify (envelope (json_of_opt ai_message))), w2))))"

subsection \<open>The handler\<close>

text \<open>
  \<open>Inl e\<close> is an object raised out of the handler; \<open>Inr r\<close> is the response it returns.
  \<^verbatim>\<open>except Exception as e\<close> catches the instances of \<^verbatim>\<open>Exception\<close> and lets
  every other raised object through.
\<close>

definition chat_completion ::
  "upstream \<Rightarrow> request_json \<Rightarrow> world \<Rightarrow> (py_exc + response) \<times> world" where
  "chat_completion create req w =
     (case req of
        JsonLoadingFailed msg \<Rightarrow> (Inl (Exc BadRequest msg), w)
      | Json data \<Rightarrow>
          (case data_get data ''messages'' (JArr []) of
             Inl e \<Rightarrow> (Inl e, w)
           | Inr messages \<Rightarrow>
               if \<not> truthy messages
               then (Inr (with_status (jsonify (error_body ''No messages provided'')) 400), w)
               else
                 (case try_block create messages w of
                    (Inr r, w') \<Rightarrow> (Inr r, w')
                  | (Inl e, w') \<Rightarrow>
                      if is_Exception e
                      then (Inr (with_status (jsonify (error_body (str_exc e))) 500), w')
                      else (Inl e, w'))))"

subsection \<open>Upstream clients and a state to run the handler on\<close>

definition hello_upstream :: upstream where
  "hello_upstream model messages =
     Inr \<lparr>choices = [\<lparr>message = \<lparr>content = Some ''hello''\<rparr>\<rparr>]\<rparr>"


definition no_choice_upstream :: upstream where
  "no_choice_upstream model messages = Inr \<lparr>choices = []\<rparr>"

definition refusing_upstream :: upstream where
  "refusing_upstream model messages =
     Inl (Exc (OtherException ''APIConnectionError'') ''Connection error.'')"


definition w0 :: world where
  "w0 = \<lparr>stdout = ''boot'', upstream_calls = []\<rparr>"

definition hi_message :: json where
  "hi_message = JObj [(''role'', JStr ''user''), (''content'', JStr ''hi'')]"

definition hi_request :: request_json where
  "hi_request = Json (JObj [(''messages'', JArr [hi_message])])"

section \<open>Properties of the handler\<close>

subsection \<open>Helper facts\<close>

lemma chat_completion_reject:
  "\<not> truthy (dict_get d ''messages'' (JArr [])) \<Longrightarrow>
   chat_completion create (Json (JObj d)) w =
     (Inr \<lparr>status = 400, body = JObj [(''error'', JStr ''No messages provided'')]\<rparr>, w)"
  by (simp add: chat_completion_def data_get_def jsonify_def with_status_def error_body_def)

lemma chat_completion_forward:
  "truthy (dict_get d ''messages'' (JArr [])) \<Longrightarrow>
   chat_completion create (Json (JObj d)) w =
     (case try_block create (dict_get d ''messages'' (JArr [])) w of
        (Inr r, w') \<Rightarrow> (Inr r, w')
      | (Inl e, w') \<Rightarrow>
          if is_Exception e
          then (Inr \<lparr>status = 500, body = JObj [(''error'', JStr (str_exc e))]\<rparr>, w')
          else (Inl e, w'))"
  by (simp add: chat_completion_def data_get_def jsonify_def with_status_def error_body_def
      split: prod.split sum.split)

lemma try_block_raises:
  "create ''tentris'' messages = Inl e \<Longrightarrow>
   try_block create messages w =
     (Inl e, w\<lparr>upstream_calls := upstream_calls w @ [(''tentris'', messages)]\<rparr>)"
  by (simp add: try_block_def call_upstream_def)

lemma try_block_no_choice:
  "create ''tentris'' messages = Inr resp \<Longrightarrow> choices resp = [] \<Longrightarrow>
   try_block create messages w =
     (Inl (Exc IndexError ''list index out of range''),
      w\<lparr>upstream_calls := upstream_calls w @ [(''tentris'', messages)]\<rparr>)"
  by (simp add: try_block_def call_upstream_def subscript0_def)


lemma dict_get_Some:
  "map_of (rev d) k = Some v \<Longrightarrow> dict_get d k dflt = v"
  by (simp add: dict_get_def)

lemma try_block_response_stateless:
  "fst (try_block create messages w1) = fst (try_block create messages w2)"
  by (simp add: try_block_def call_upstream_def Let_def split: sum.split)


lemma chat_completion_response_stateless:
  "fst (chat_completion create req w1) = fst (chat_completion create req w2)"
proof (cases req)
  case (JsonLoadingFailed msg)
  then show ?thesis
    by (simp add: chat_completion_def)
next
  case (Json data)
  show ?thesis
  proof (cases "data_get data ''messages'' (JArr [])")
    case (Inl e)
    with Json show ?thesis
      by (simp add: chat_completion_def)
  next
    case (Inr messages)
    obtain x1 v1 where t1: "try_block create messages w1 = (x1, v1)"
      by (cases "try_block create messages w1")
    obtain x2 v2 where t2: "try_block create messages w2 = (x2, v2)"
      by (cases "try_block create messages w2")
    have "x1 = x2"
      using try_block_response_stateless [of create messages w1 w2] t1 t2 by simp
    with Json Inr t1 t2 show ?thesis
      by (simp add: chat_completion_def split: sum.split)
  qed
qed


subsection \<open>Validation\<close>

text \<open>
  C2. When the body is a JSON mapping in which the key \<^verbatim>\<open>messages\<close> is absent, or
  maps to the empty sequence, the handler returns status 400 with the body
  \<^verbatim>\<open>{"error": "No messages provided"}\<close>, and the state is the one it started from: no
  call to the upstream client has been made (and nothing has been printed).
\<close>

theorem missing_or_empty_messages_rejected:
  assumes "map_of (rev d) ''messages'' = None \<or> map_of (rev d) ''messages'' = Some (JArr [])"
  shows "chat_completion create (Json (JObj d)) w =
           (Inr \<lparr>status = 400, body = JObj [(''error'', JStr ''No messages provided'')]\<rparr>, w)"
proof -
  from assms have "dict_get d ''messages'' (JArr []) = JArr []"
    by (auto simp: dict_get_def)
  then have "\<not> truthy (dict_get d ''messages'' (JArr []))"
    by simp
  then show ?thesis
    by (rule chat_completion_reject)
qed

theorem missing_or_empty_messages_rejected_witness:
  "(map_of (rev [(''user'', JStr ''bob'')]) ''messages'' = None
      \<or> map_of (rev [(''user'', JStr ''bob'')]) ''messages'' = Some (JArr []))
   \<and> chat_completion hello_upstream (Json (JObj [(''user'', JStr ''bob'')])) w0 =
       (Inr \<lparr>status = 400, body = JObj [(''error'', JStr ''No messages provided'')]\<rparr>, w0)
   \<and> (map_of (rev [(''messages'', JArr [])]) ''messages'' = None
      \<or> map_of (rev [(''messages'', JArr [])]) ''messages'' = Some (JArr []))
   \<and> chat_completion hello_upstream (Json (JObj [(''messages'', JArr [])])) w0 =
       (Inr \<lparr>status = 400, body = JObj [(''error'', JStr ''No messages provided'')]\<rparr>, w0)"
proof -
  have a: "map_of (rev [(''user'', JStr ''bob'')]) ''messages'' = None
      \<or> map_of (rev [(''user'', JStr ''bob'')]) ''messages'' = Some (JArr [])"
    by simp
  have b: "map_of (rev [(''messages'', JArr [])]) ''messages'' = None
      \<or> map_of (rev [(''messages'', JArr [])]) ''messages'' = Some (JArr [])"
    by simp
  show ?thesis
    using a b
      missing_or_empty_messages_rejected [OF a, of hello_upstream w0]
      missing_or_empty_messages_rejected [OF b, of hello_upstream w0]
    by simp
qed



subsection \<open>The success path\<close>







subsection \<open>The failure path\<close>

text \<open>
  C3. When the body maps \<^verbatim>\<open>messages\<close> to a non-empty sequence and an exception \<open>e\<close>
  (an instance of \<^verbatim>\<open>Exception\<close>, as connection, timeout, status and parsing errors
  all are) is raised by the upstream call, or by reading the first choice of its
  answer, the handler catches it and returns status 500 with the body
  \<^verbatim>\<open>{"error": S}\<close>, where \<open>S\<close> is \<^verbatim>\<open>str(e)\<close>.
\<close>

theorem upstream_exception_becomes_500:
  assumes "map_of (rev d) ''messages'' = Some (JArr ms)" and "ms \<noteq> []"
    and "create ''tentris'' (JArr ms) = Inl e
         \<or> (\<exists>resp. create ''tentris'' (JArr ms) = Inr resp \<and> subscript0 (choices resp) = Inl e)"
    and "is_Exception e"
  shows "fst (chat_completion create (Json (JObj d)) w) =
           Inr \<lparr>status = 500, body = JObj [(''error'', JStr (str_exc e))]\<rparr>"
proof -
  have g: "dict_get d ''messages'' (JArr []) = JArr ms"
    using assms(1) by (rule dict_get_Some)
  with assms(2) have t: "truthy (dict_get d ''messages'' (JArr []))"
    by simp
  from assms(3) have "fst (try_block create (JArr ms) w) = Inl e"
  proof
    assume "create ''tentris'' (JArr ms) = Inl e"
    then show ?thesis
      by (simp add: try_block_raises)
  next
    assume "\<exists>resp. create ''tentris'' (JArr ms) = Inr resp \<and> subscript0 (choices resp) = Inl e"
    then obtain resp where r: "create ''tentris'' (JArr ms) = Inr resp"
      and s: "subscript0 (choices resp) = Inl e"
      by blast
    from s have "choices resp = []" and "e = Exc IndexError ''list index out of range''"
      by (auto simp: subscript0_def split: list.splits)
    with r show ?thesis
      by (simp add: try_block_no_choice)
  qed
  then obtain w' where "try_block create (JArr ms) w = (Inl e, w')"
    by (cases "try_block create (JArr ms) w") simp
  with t g assms(4) show ?thesis
    by (simp add: chat_completion_forward)
qed

theorem upstream_exception_becomes_500_witness:
  "map_of (rev [(''messages'', JArr [hi_message])]) ''messages'' = Some (JArr [hi_message])
   \<and> [hi_message] \<noteq> []
   \<and> refusing_upstream ''tentris'' (JArr [hi_message]) =
       Inl (Exc (OtherException ''APIConnectionError'') ''Connection error.'')
   \<and> is_Exception (Exc (OtherException ''APIConnectionError'') ''Connection error.'')
   \<and> fst (chat_completion refusing_upstream hi_request w0) =
       Inr \<lparr>status = 500, body = JObj [(''error'', JStr ''Connection error.'')]\<rparr>"
proof -
  have a: "map_of (rev [(''messages'', JArr [hi_message])]) ''messages'' = Some (JArr [hi_message])"
    by simp
  have b: "[hi_message] \<noteq> []"
    by simp
  have c: "refusing_upstream ''tentris'' (JArr [hi_message]) =
       Inl (Exc (OtherException ''APIConnectionError'') ''Connection error.'')"
    by (simp add: refusing_upstream_def)
  have d: "is_Exception (Exc (OtherException ''APIConnectionError'') ''Connection error.'')"
    by simp
  show ?thesis
    using a b c d
      upstream_exception_becomes_500
        [where create = refusing_upstream and d = "[(''messages'', JArr [hi_message])]"
           and ms = "[hi_message]" and w = w0
           and e = "Exc (OtherException ''APIConnectionError'') ''Connection error.''"]
    by (simp add: hi_request_def)
qed

text \<open>
  C10. When the body maps \<^verbatim>\<open>messages\<close> to a non-empty sequence and the upstream
  call returns a completion with no choice, \<^verbatim>\<open>response.choices[0]\<close> raises an
  IndexError inside the \<^verbatim>\<open>try\<close> block; the handler returns status 500 with the body
  \<^verbatim>\<open>{"error": "list index out of range"}\<close>, and raises nothing.
\<close>

theorem empty_choices_becomes_500:
  assumes "map_of (rev d) ''messages'' = Some (JArr ms)" and "ms \<noteq> []"
    and "create ''tentris'' (JArr ms) = Inr resp"
    and "choices resp = []"
  shows "fst (chat_completion create (Json (JObj d)) w) =
           Inr \<lparr>status = 500, body = JObj [(''error'', JStr ''list index out of range'')]\<rparr>"
proof -
  have g: "dict_get d ''messages'' (JArr []) = JArr ms"
    using assms(1) by (rule dict_get_Some)
  with assms(2) have t: "truthy (dict_get d ''messages'' (JArr []))"
    by simp
  have "try_block create (JArr ms) w =
     (Inl (Exc IndexError ''list index out of range''),
      w\<lparr>upstream_calls := upstream_calls w @ [(''tentris'', JArr ms)]\<rparr>)"
    using assms(3,4) by (rule try_block_no_choice)
  with t g show ?thesis
    by (simp add: chat_completion_forward)
qed

theorem empty_choices_becomes_500_witness:
  "map_of (rev [(''messages'', JArr [hi_message])]) ''messages'' = Some (JArr [hi_message])
   \<and> [hi_message] \<noteq> []
   \<and> no_choice_upstream ''tentris'' (JArr [hi_message]) = Inr \<lparr>choices = []\<rparr>
   \<and> choices \<lparr>choices = []\<rparr> = []
   \<and> fst (chat_completion no_choice_upstream hi_request w0) =
       Inr \<lparr>status = 500, body = JObj [(''error'', JStr ''list index out of range'')]\<rparr>"
proof -
  have a: "map_of (rev [(''messages'', JArr [hi_message])]) ''messages'' = Some (JArr [hi_message])"
    by simp
  have b: "[hi_message] \<noteq> []"
    by simp
  have c: "no_choice_upstream ''tentris'' (JArr [hi_message]) = Inr \<lparr>choices = []\<rparr>"
    by (simp add: no_choice_upstream_def)
  show ?thesis
    using a b c
      empty_choices_becomes_500
        [where create = no_choice_upstream and d = "[(''messages'', JArr [hi_message])]"
           and ms = "[hi_message]" and w = w0 and resp = "\<lparr>choices = []\<rparr>"]
    by (simp add: hi_request_def)
qed

subsection \<open>State and output\<close>

text \<open>
  C7. The response (the raised object, or the status and the body) is a function of
  the request and of the upstream client alone: it is the same from any two states, and
  a second invocation with the same request, run after the first, returns what the
  first returned.
\<close>

theorem same_request_same_response:
  "fst (chat_completion create req w1) = fst (chat_completion create req w2)
   \<and> fst (chat_completion create req (snd (chat_completion create req w1))) =
       fst (chat_completion create req w1)"
proof
  show "fst (chat_completion create req w1) = fst (chat_completion create req w2)"
    by (rule chat_completion_response_stateless)
  show "fst (chat_completion create req (snd (chat_completion create req w1))) =
       fst (chat_completion create req w1)"
    by (rule chat_completion_response_stateless)
qed



subsection \<open>What leaves the handler as a raised object\<close>




end
